theory Spec2Isabelle
  imports Main
begin

section \<open>The windows.netscan plugin of volatility\<close>

text \<open>
  A shallow embedding of \<^verbatim>\<open>volatility/framework/plugins/windows/netscan.py\<close>:
  the choice of the tcpip symbol file (\<^verbatim>\<open>determine_tcpip_version\<close>), the pool
  constraints (\<^verbatim>\<open>create_netscan_constraints\<close>) and the generator that turns scanned
  network objects into rows (\<^verbatim>\<open>_generator\<close>).
\<close>

subsection \<open>Python values\<close>

text \<open>
  The values that reach an output column: \<^verbatim>\<open>None\<close>, an integer, a string, a
  \<^verbatim>\<open>datetime\<close> (kept as its timestamp) and \<^verbatim>\<open>renderers.UnreadableValue()\<close>.
\<close>

datatype pyval = PNone | PInt int | PStr string | PDatetime int | UnreadableValue

text \<open>
  Python's truth value, which decides \<^verbatim>\<open>x or y\<close>: \<^verbatim>\<open>None\<close>, \<^verbatim>\<open>0\<close> and the empty
  string are false; a \<^verbatim>\<open>datetime\<close> and an \<^verbatim>\<open>UnreadableValue\<close> object are true.
\<close>

fun truthy :: "pyval \<Rightarrow> bool" where
  "truthy PNone = False"
| "truthy (PInt i) = (i \<noteq> 0)"
| "truthy (PStr s) = (s \<noteq> [])"
| "truthy (PDatetime t) = True"
| "truthy UnreadableValue = True"

text \<open>\<^verbatim>\<open>x or renderers.UnreadableValue()\<close>\<close>

definition or_unreadable :: "pyval \<Rightarrow> pyval" where
  "or_unreadable x = (if truthy x then x else UnreadableValue)"

subsection \<open>Decimal rendering of integers\<close>

text \<open>
  \<^verbatim>\<open>str(kuser.NtMajorVersion)\<close> renders an integer in decimal; the version
  decision compares these strings.
\<close>

definition digit_char :: "nat \<Rightarrow> char" where
  "digit_char d =
    (if d = 0 then CHR ''0'' else if d = 1 then CHR ''1'' else if d = 2 then CHR ''2''
     else if d = 3 then CHR ''3'' else if d = 4 then CHR ''4'' else if d = 5 then CHR ''5''
     else if d = 6 then CHR ''6'' else if d = 7 then CHR ''7'' else if d = 8 then CHR ''8''
     else CHR ''9'')"

function str_nat :: "nat \<Rightarrow> string" where
  "str_nat n = (if n < 10 then [digit_char n] else str_nat (n div 10) @ [digit_char (n mod 10)])"
  by pat_completeness auto
termination
  by (relation "measure (\<lambda>n. n)") auto

declare str_nat.simps [simp del]

definition str :: "int \<Rightarrow> string" where
  "str i = (if i < 0 then CHR ''-'' # str_nat (nat (- i)) else str_nat (nat i))"

subsection \<open>Choosing the symbol file\<close>

datatype error =
    TypeError string
  | NameError string
  | UnboundLocalError string
  | SymbolError string

text \<open>
  The module \<^verbatim>\<open>volatility.framework.symbols.windows.extensions.network\<close> is
  imported by the plugin and is not part of it. Its constants are parameters of the model:
  the two class tables (kept as the sets of type names they override), the address family
  codes and the table of TCP states.
\<close>

type_synonym class_table = "string set"

record network =
  class_types :: class_table
  win10_x64_class_types :: class_table
  AF_INET :: int
  AF_INET6 :: int
  TCP_STATE_ENUM :: "int \<rightharpoonup> string"

text \<open>
  What \<^verbatim>\<open>determine_tcpip_version\<close> reads from the context and the memory image:
  whether the kernel symbol table is 64 bit, whether the primary layer is an Intel layer,
  the \<^verbatim>\<open>MinorVersion\<close> of \<^verbatim>\<open>KdVersionBlock\<close> (the build number) and the major and
  minor version of \<^verbatim>\<open>_KUSER_SHARED_DATA\<close>.
\<close>

record kernel_info =
  is_64bit :: bool
  layer_is_intel :: bool
  MinorVersion :: int
  NtMajorVersion :: int
  NtMinorVersion :: int

definition arch_of :: "kernel_info \<Rightarrow> string" where
  "arch_of k = (if is_64bit k then ''x64'' else ''x86'')"

text \<open>
  The function returns the pair of the file name and the class table. Two paths leave it
  by an exception: with major version 6 and a minor version other than 0 to 3 no branch
  binds \<^verbatim>\<open>filename\<close>, which line 174 then reads; with any other major version line 172
  reads \<^verbatim>\<open>major_version\<close>, a name that is bound nowhere in the module.
\<close>

definition determine_tcpip_version :: "network \<Rightarrow> kernel_info \<Rightarrow> error + (string \<times> class_table)" where
  "determine_tcpip_version net k =
    (let arch = arch_of k in
     if \<not> layer_is_intel k then Inl (TypeError ''Virtual Layer is not an intel layer'')
     else
       let vers_minor_version = MinorVersion k;
           nt_major_version = str (NtMajorVersion k);
           nt_minor_version = str (NtMinorVersion k)
       in
         if nt_major_version = ''10'' then
           (let ct = (if arch = ''x64'' then win10_x64_class_types net else class_types net) in
            if vers_minor_version < 14393 then Inr (''netscan-win10-'' @ arch, ct)
            else if vers_minor_version < 15063 then
              (if arch = ''x64'' then Inr (''netscan-win10-x64'', ct)
               else Inr (''netscan-win10-14393-x86'', ct))
            else Inr (''netscan-win10-15063-'' @ arch, ct))
         else if nt_major_version = ''6'' then
           (if nt_minor_version = ''0'' then Inr (''netscan-vista-'' @ arch, class_types net)
            else if nt_minor_version = ''1'' then Inr (''netscan-win7-'' @ arch, class_types net)
            else if nt_minor_version = ''2'' then Inr (''netscan-win8-'' @ arch, class_types net)
            else if nt_minor_version = ''3'' then Inr (''netscan-win81-'' @ arch, class_types net)
            else Inl (UnboundLocalError ''filename''))
         else Inl (NameError ''major_version''))"

subsection \<open>Pool constraints\<close>

text \<open>
  \<^verbatim>\<open>poolscanner.PoolType\<close> is a flag enumeration; a value built with \<^verbatim>\<open>|\<close> is the
  set of the flags it holds. A \<^verbatim>\<open>PoolConstraint\<close> is kept with the arguments the plugin
  passes: the tag, the type name, the pair of size bounds and the page type.
\<close>

datatype PoolType = PAGED | NONPAGED | FREE

record PoolConstraint =
  tag :: string
  type_name :: string
  size_bounds :: "int \<times> int option"
  page_type :: "PoolType set"

text \<open>
  The part of the framework context the plugin uses: \<^verbatim>\<open>constants.BANG\<close>, the separator
  of table name and type name, and the symbol space, kept as the size of each type it
  knows. \<^verbatim>\<open>get_type\<close> on a name the symbol space does not know raises.
\<close>

record vol_context =
  BANG :: string
  symbol_space :: "string \<rightharpoonup> int"

definition get_type_size :: "vol_context \<Rightarrow> string \<Rightarrow> error + int" where
  "get_type_size ctx name =
    (case symbol_space ctx name of None \<Rightarrow> Inl (SymbolError name) | Some sz \<Rightarrow> Inr sz)"

definition create_netscan_constraints :: "vol_context \<Rightarrow> string \<Rightarrow> error + PoolConstraint list" where
  "create_netscan_constraints ctx symbol_table =
    (case get_type_size ctx (symbol_table @ BANG ctx @ ''_TCP_LISTENER'') of
       Inl e \<Rightarrow> Inl e
     | Inr tcpl_size \<Rightarrow>
    (case get_type_size ctx (symbol_table @ BANG ctx @ ''_TCP_ENDPOINT'') of
       Inl e \<Rightarrow> Inl e
     | Inr tcpe_size \<Rightarrow>
    (case get_type_size ctx (symbol_table @ BANG ctx @ ''_UDP_ENDPOINT'') of
       Inl e \<Rightarrow> Inl e
     | Inr udpa_size \<Rightarrow>
       Inr [\<lparr>tag = ''TcpL'',
             type_name = symbol_table @ BANG ctx @ ''_TCP_LISTENER'',
             size_bounds = (tcpl_size, None),
             page_type = {NONPAGED} \<union> {FREE}\<rparr>,
            \<lparr>tag = ''TcpE'',
             type_name = symbol_table @ BANG ctx @ ''_TCP_ENDPOINT'',
             size_bounds = (tcpe_size, None),
             page_type = {NONPAGED} \<union> {FREE}\<rparr>,
            \<lparr>tag = ''UdpA'',
             type_name = symbol_table @ BANG ctx @ ''_UDP_ENDPOINT'',
             size_bounds = (udpa_size, None),
             page_type = {NONPAGED} \<union> {FREE}\<rparr>])))"

subsection \<open>Network objects and rows\<close>

text \<open>
  The class of a scanned object. The classes live in the network extension module; the
  plugin's comment at the last test records that the two endpoint classes inherit from
  the listener class, so an endpoint is an instance of the listener class too.
\<close>

datatype obj_class = UDP_ENDPOINT | TCP_ENDPOINT | TCP_LISTENER | Other_class

fun issubclass :: "obj_class \<Rightarrow> obj_class \<Rightarrow> bool" where
  "issubclass UDP_ENDPOINT TCP_LISTENER = True"
| "issubclass TCP_ENDPOINT TCP_LISTENER = True"
| "issubclass c d = (c = d)"

text \<open>
  One socket reported by \<^verbatim>\<open>dual_stack_sockets()\<close>: the version suffix, the local and
  the remote address.
\<close>

type_synonym socket = "string \<times> pyval \<times> pyval"

text \<open>
  A scanned object, with the attributes the generator reads and, for each method of the
  extension classes it calls, the value that call returns on this object.
\<close>

record netw_obj =
  cls :: obj_class
  offset :: int
  is_valid :: bool
  Port :: int
  LocalPort :: int
  RemotePort :: int
  State :: int
  dual_stack_sockets :: "socket list"
  get_address_family :: int
  get_local_address :: pyval
  get_remote_address :: pyval
  get_owner_pid :: pyval
  get_owner_procname :: pyval
  get_create_time :: pyval

definition isinstance :: "netw_obj \<Rightarrow> obj_class \<Rightarrow> bool" where
  "isinstance obj c = issubclass (cls obj) c"

text \<open>The ten columns of the tree grid, in the order of \<^verbatim>\<open>run\<close>.\<close>

record row =
  col_Offset :: int
  col_Proto :: string
  col_LocalAddr :: pyval
  col_LocalPort :: int
  col_ForeignAddr :: pyval
  col_ForeignPort :: int
  col_State :: pyval
  col_PID :: pyval
  col_Owner :: pyval
  col_Created :: pyval

text \<open>
  The generator logs and yields; an event is either a debug message (with the values it
  formats) or a yielded pair of the tree level and the row.
\<close>

datatype log_msg =
    Found_netw_obj int obj_class
  | Found_UDP_ENDPOINT int
  | Found_TCP_ENDPOINT int
  | Found_TCP_LISTENER int
  | Unsure_of_type netw_obj

datatype event = Debug log_msg | Yield nat row

fun yielded :: "event list \<Rightarrow> row list" where
  "yielded [] = []"
| "yielded (Debug m # es) = yielded es"
| "yielded (Yield lvl r # es) = r # yielded es"

fun logged :: "event list \<Rightarrow> log_msg list" where
  "logged [] = []"
| "logged (Debug m # es) = m # logged es"
| "logged (Yield lvl r # es) = logged es"

subsection \<open>The generator\<close>

definition CORRUPT_DEFAULT :: bool where
  "CORRUPT_DEFAULT = False"

text \<open>
  \<^verbatim>\<open>show_corrupt_results\<close> is what \<^verbatim>\<open>config.get('include-corrupt', None)\<close> returns:
  \<^verbatim>\<open>None\<close> or a boolean. Only \<^verbatim>\<open>True\<close> is true.
\<close>

definition flag_set :: "bool option \<Rightarrow> bool" where
  "flag_set show_corrupt_results = (show_corrupt_results = Some True)"

text \<open>The rows of the UDP branch, one for each socket.\<close>

definition udp_endpoint_rows :: "netw_obj \<Rightarrow> row list" where
  "udp_endpoint_rows netw_obj =
    map (\<lambda>(ver, laddr, _).
          \<lparr>col_Offset = offset netw_obj,
           col_Proto = ''UDP'' @ ver,
           col_LocalAddr = laddr,
           col_LocalPort = Port netw_obj,
           col_ForeignAddr = PStr ''*'',
           col_ForeignPort = 0,
           col_State = PStr [],
           col_PID = or_unreadable (get_owner_pid netw_obj),
           col_Owner = or_unreadable (get_owner_procname netw_obj),
           col_Created = or_unreadable (get_create_time netw_obj)\<rparr>)
        (dual_stack_sockets netw_obj)"

text \<open>The row of the TCP endpoint branch.\<close>

definition tcp_endpoint_row :: "network \<Rightarrow> netw_obj \<Rightarrow> row" where
  "tcp_endpoint_row net netw_obj =
    (let proto = (if get_address_family netw_obj = AF_INET net then ''TCPv4''
                  else if get_address_family netw_obj = AF_INET6 net then ''TCPv6''
                  else ''TCPv?'');
         state = (case TCP_STATE_ENUM net (State netw_obj) of
                    Some label \<Rightarrow> PStr label
                  | None \<Rightarrow> UnreadableValue)
     in \<lparr>col_Offset = offset netw_obj,
         col_Proto = proto,
         col_LocalAddr = or_unreadable (get_local_address netw_obj),
         col_LocalPort = LocalPort netw_obj,
         col_ForeignAddr = or_unreadable (get_remote_address netw_obj),
         col_ForeignPort = RemotePort netw_obj,
         col_State = state,
         col_PID = or_unreadable (get_owner_pid netw_obj),
         col_Owner = or_unreadable (get_owner_procname netw_obj),
         col_Created = or_unreadable (get_create_time netw_obj)\<rparr>)"

text \<open>The rows of the TCP listener branch, one for each socket.\<close>

definition tcp_listener_rows :: "netw_obj \<Rightarrow> row list" where
  "tcp_listener_rows netw_obj =
    map (\<lambda>(ver, laddr, raddr).
          \<lparr>col_Offset = offset netw_obj,
           col_Proto = ''TCP'' @ ver,
           col_LocalAddr = laddr,
           col_LocalPort = Port netw_obj,
           col_ForeignAddr = raddr,
           col_ForeignPort = 0,
           col_State = PStr ''LISTENING'',
           col_PID = or_unreadable (get_owner_pid netw_obj),
           col_Owner = or_unreadable (get_owner_procname netw_obj),
           col_Created = or_unreadable (get_create_time netw_obj)\<rparr>)
        (dual_stack_sockets netw_obj)"

text \<open>
  The body of the loop for one scanned object: the first debug message, the validity
  gate (\<^verbatim>\<open>continue\<close> yields nothing more for this object), then the chain of
  \<^verbatim>\<open>isinstance\<close> tests in the order of the source.
\<close>

definition netw_obj_events :: "network \<Rightarrow> bool option \<Rightarrow> netw_obj \<Rightarrow> event list" where
  "netw_obj_events net show_corrupt_results netw_obj =
    Debug (Found_netw_obj (offset netw_obj) (cls netw_obj)) #
    (if \<not> flag_set show_corrupt_results \<and> \<not> is_valid netw_obj then []
     else if isinstance netw_obj UDP_ENDPOINT then
       Debug (Found_UDP_ENDPOINT (offset netw_obj)) # map (Yield 0) (udp_endpoint_rows netw_obj)
     else if isinstance netw_obj TCP_ENDPOINT then
       [Debug (Found_TCP_ENDPOINT (offset netw_obj)), Yield 0 (tcp_endpoint_row net netw_obj)]
     else if isinstance netw_obj TCP_LISTENER then
       Debug (Found_TCP_LISTENER (offset netw_obj)) # map (Yield 0) (tcp_listener_rows netw_obj)
     else [Debug (Unsure_of_type netw_obj)])"

text \<open>The loop over the scanned objects.\<close>

fun scan_events :: "network \<Rightarrow> bool option \<Rightarrow> netw_obj list \<Rightarrow> event list" where
  "scan_events net show_corrupt_results [] = []"
| "scan_events net show_corrupt_results (netw_obj # rest) =
     netw_obj_events net show_corrupt_results netw_obj @ scan_events net show_corrupt_results rest"

text \<open>
  Creating the symbol table and scanning the layer belong to the framework: the name
  \<^verbatim>\<open>IntermediateSymbolTable.create\<close> gives the new table and the objects the pool
  scanner finds for the constraints are parameters.
\<close>

definition create_netscan_symbol_table ::
  "network \<Rightarrow> kernel_info \<Rightarrow> (string \<Rightarrow> class_table \<Rightarrow> string) \<Rightarrow> error + string" where
  "create_netscan_symbol_table net k create_table =
    (case determine_tcpip_version net k of
       Inl e \<Rightarrow> Inl e
     | Inr (symbol_filename, ct) \<Rightarrow> Inr (create_table symbol_filename ct))"

definition scan ::
  "vol_context \<Rightarrow> (PoolConstraint list \<Rightarrow> netw_obj list) \<Rightarrow> string \<Rightarrow> error + netw_obj list" where
  "scan ctx generate_pool_scan netscan_symbol_table =
    (case create_netscan_constraints ctx netscan_symbol_table of
       Inl e \<Rightarrow> Inl e
     | Inr constraints \<Rightarrow> Inr (generate_pool_scan constraints))"

text \<open>
  The whole generator. An exception of the set-up ends it before any event; the loop
  itself has no statement that raises.
\<close>

definition generator ::
  "network \<Rightarrow> kernel_info \<Rightarrow> vol_context \<Rightarrow> (string \<Rightarrow> class_table \<Rightarrow> string) \<Rightarrow>
   (PoolConstraint list \<Rightarrow> netw_obj list) \<Rightarrow> bool option \<Rightarrow> error + event list" where
  "generator net k ctx create_table generate_pool_scan show_corrupt_results =
    (case create_netscan_symbol_table net k create_table of
       Inl e \<Rightarrow> Inl e
     | Inr netscan_symbol_table \<Rightarrow>
         (case scan ctx generate_pool_scan netscan_symbol_table of
            Inl e \<Rightarrow> Inl e
          | Inr netw_objs \<Rightarrow> Inr (scan_events net show_corrupt_results netw_objs)))"

text \<open>
  Modelled from the spec: the method \<^verbatim>\<open>dual_stack_sockets\<close> of the network object
  classes is not among the sources. The spec says of a dual-stack candidate, bound to both
  IPv4 and IPv6 on the same port, that it is expanded into one socket per address family,
  with the family-specific wildcard remote address synthesised per family.
\<close>

definition dual_stack_expansion :: "pyval \<Rightarrow> pyval \<Rightarrow> pyval \<Rightarrow> pyval \<Rightarrow> socket list" where
  "dual_stack_expansion laddr4 inaddr_any laddr6 inaddr6_any =
    [(''v4'', laddr4, inaddr_any), (''v6'', laddr6, inaddr6_any)]"

subsection \<open>Concrete inputs\<close>

text \<open>
  An instance of the module constants, kernel profiles, a symbol space and scanned objects,
  on which the theorems below are evaluated.
\<close>

definition example_network :: network where
  "example_network =
    \<lparr>class_types = {''_TCP_LISTENER'', ''_TCP_ENDPOINT'', ''_UDP_ENDPOINT''},
     win10_x64_class_types = {''_TCP_LISTENER'', ''_TCP_ENDPOINT'', ''_UDP_ENDPOINT'', ''_IN_ADDR''},
     AF_INET = 2,
     AF_INET6 = 23,
     TCP_STATE_ENUM = [0 \<mapsto> ''CLOSED'', 1 \<mapsto> ''LISTENING'', 2 \<mapsto> ''SYN_SENT'',
                       3 \<mapsto> ''SYN_RCVD'', 4 \<mapsto> ''ESTABLISHED'']\<rparr>"

definition example_profile :: "bool \<Rightarrow> int \<Rightarrow> int \<Rightarrow> int \<Rightarrow> kernel_info" where
  "example_profile x64 major minor build =
    \<lparr>is_64bit = x64, layer_is_intel = True, MinorVersion = build,
     NtMajorVersion = major, NtMinorVersion = minor\<rparr>"

definition example_context :: vol_context where
  "example_context =
    \<lparr>BANG = ''!'',
     symbol_space = [''netscan1!_TCP_LISTENER'' \<mapsto> 120, ''netscan1!_TCP_ENDPOINT'' \<mapsto> 624,
                     ''netscan1!_UDP_ENDPOINT'' \<mapsto> 168]\<rparr>"

definition example_obj :: "obj_class \<Rightarrow> bool \<Rightarrow> int \<Rightarrow> netw_obj" where
  "example_obj c v st =
    \<lparr>cls = c, offset = 4096, is_valid = v, Port = 445, LocalPort = 49152, RemotePort = 443,
     State = st,
     dual_stack_sockets =
       dual_stack_expansion (PStr ''0.0.0.0'') (PStr ''0.0.0.0'') (PStr ''::'') (PStr ''::''),
     get_address_family = 2,
     get_local_address = PStr ''10.0.0.5'',
     get_remote_address = PNone,
     get_owner_pid = PInt 0,
     get_owner_procname = PStr ''svchost.exe'',
     get_create_time = PNone\<rparr>"

subsection \<open>Decimal rendering: the strings the decision compares\<close>

lemma digit_char_eq:
  "d < 10 \<Longrightarrow> e < 10 \<Longrightarrow> digit_char d = digit_char e \<longleftrightarrow> d = e"
  unfolding digit_char_def by (simp split: if_splits) arith

lemma str_nat_small: "n < 10 \<Longrightarrow> str_nat n = [digit_char n]"
  by (subst str_nat.simps) simp

lemma str_nat_big: "\<not> n < 10 \<Longrightarrow> str_nat n = str_nat (n div 10) @ [digit_char (n mod 10)]"
  by (subst str_nat.simps) simp

lemma str_nat_nonempty: "str_nat n \<noteq> []"
  by (cases "n < 10") (simp_all add: str_nat_small str_nat_big)

lemma str_nat_single: "str_nat n = [c] \<longleftrightarrow> n < 10 \<and> digit_char n = c"
proof (cases "n < 10")
  case True
  then show ?thesis by (simp add: str_nat_small)
next
  case False
  then show ?thesis using str_nat_nonempty [of "n div 10"]
    by (simp add: str_nat_big)
qed

lemma str_nat_digit: "d < 10 \<Longrightarrow> str_nat n = [digit_char d] \<longleftrightarrow> n = d"
  using digit_char_eq [of n d] by (auto simp: str_nat_single)

lemma str_nat_ten: "str_nat n = ''10'' \<longleftrightarrow> n = 10"
proof (cases "n < 10")
  case True
  then show ?thesis by (simp add: str_nat_small)
next
  case False
  have "str_nat n = ''10'' \<longleftrightarrow> str_nat (n div 10) = [digit_char 1] \<and> digit_char (n mod 10) = digit_char 0"
    using False by (simp add: str_nat_big digit_char_def)
  also have "\<dots> \<longleftrightarrow> n div 10 = 1 \<and> n mod 10 = 0"
    using digit_char_eq [of "n mod 10" 0] by (simp add: str_nat_digit)
  also have "\<dots> \<longleftrightarrow> n = 10" by arith
  finally show ?thesis .
qed

lemma str_nat_no_minus: "str_nat n \<noteq> CHR ''-'' # s"
proof (induction n arbitrary: s rule: str_nat.induct)
  case (1 n)
  show ?case
  proof (cases "n < 10")
    case True
    then show ?thesis by (simp add: str_nat_small digit_char_def)
  next
    case False
    obtain a as where a: "str_nat (n div 10) = a # as"
      using str_nat_nonempty [of "n div 10"] by (cases "str_nat (n div 10)") auto
    have "a \<noteq> CHR ''-''" using "1" [OF False, of as] a by auto
    moreover have "str_nat n = a # (as @ [digit_char (n mod 10)])"
      using str_nat_big [OF False] a by simp
    ultimately show ?thesis by simp
  qed
qed

lemma str_ten: "str i = ''10'' \<longleftrightarrow> i = 10"
  unfolding str_def using str_nat_ten [of "nat i"] by auto

lemma str_digit: "d < 10 \<Longrightarrow> str i = [digit_char d] \<longleftrightarrow> i = int d"
  unfolding str_def using str_nat_digit [of d "nat i"] by (auto simp: digit_char_def split: if_splits)

lemma str_cases:
  "str i = ''0'' \<longleftrightarrow> i = 0" "str i = ''1'' \<longleftrightarrow> i = 1" "str i = ''2'' \<longleftrightarrow> i = 2"
  "str i = ''3'' \<longleftrightarrow> i = 3" "str i = ''6'' \<longleftrightarrow> i = 6"
  using str_digit [of 0 i] str_digit [of 1 i] str_digit [of 2 i] str_digit [of 3 i]
    str_digit [of 6 i]
  by (simp_all add: digit_char_def)

subsection \<open>The version decision\<close>

lemma determine_major_10:
  "layer_is_intel k \<Longrightarrow> NtMajorVersion k = 10 \<Longrightarrow>
   determine_tcpip_version net k =
     Inr (if MinorVersion k < 14393 then ''netscan-win10-'' @ arch_of k
          else if MinorVersion k < 15063 then
            (if is_64bit k then ''netscan-win10-x64'' else ''netscan-win10-14393-x86'')
          else ''netscan-win10-15063-'' @ arch_of k,
          if is_64bit k then win10_x64_class_types net else class_types net)"
  by (simp add: determine_tcpip_version_def Let_def str_ten arch_of_def)

lemma determine_major_6:
  "layer_is_intel k \<Longrightarrow> NtMajorVersion k = 6 \<Longrightarrow>
   determine_tcpip_version net k =
     (if NtMinorVersion k = 0 then Inr (''netscan-vista-'' @ arch_of k, class_types net)
      else if NtMinorVersion k = 1 then Inr (''netscan-win7-'' @ arch_of k, class_types net)
      else if NtMinorVersion k = 2 then Inr (''netscan-win8-'' @ arch_of k, class_types net)
      else if NtMinorVersion k = 3 then Inr (''netscan-win81-'' @ arch_of k, class_types net)
      else Inl (UnboundLocalError ''filename''))"
  by (simp add: determine_tcpip_version_def Let_def str_ten str_cases)

lemma determine_major_other:
  "layer_is_intel k \<Longrightarrow> NtMajorVersion k \<noteq> 10 \<Longrightarrow> NtMajorVersion k \<noteq> 6 \<Longrightarrow>
   determine_tcpip_version net k = Inl (NameError ''major_version'')"
  by (simp add: determine_tcpip_version_def Let_def str_ten str_cases)

text \<open>
  Claim C1. On an Intel layer the file name follows the decision table: with major version
  10, a build below 14393 gives the win10 name of the architecture, a build from 14393 and
  below 15063 gives the win10 x64 name on x64 and the 14393-x86 name on x86, and a build from
  15063 on gives the 15063 name of the architecture; with major version 6, the minor
  versions 0, 1, 2 and 3 give the vista, win7, win8 and win81 name of the architecture.
\<close>

theorem version_decision_table:
  assumes "layer_is_intel k"
  shows "(NtMajorVersion k = 10 \<and> MinorVersion k < 14393 \<longrightarrow>
           map_sum id fst (determine_tcpip_version net k) =
             Inr (if is_64bit k then ''netscan-win10-x64'' else ''netscan-win10-x86''))
    \<and> (NtMajorVersion k = 10 \<and> 14393 \<le> MinorVersion k \<and> MinorVersion k < 15063 \<longrightarrow>
           map_sum id fst (determine_tcpip_version net k) =
             Inr (if is_64bit k then ''netscan-win10-x64'' else ''netscan-win10-14393-x86''))
    \<and> (NtMajorVersion k = 10 \<and> 15063 \<le> MinorVersion k \<longrightarrow>
           map_sum id fst (determine_tcpip_version net k) =
             Inr (if is_64bit k then ''netscan-win10-15063-x64'' else ''netscan-win10-15063-x86''))
    \<and> (NtMajorVersion k = 6 \<and> NtMinorVersion k = 0 \<longrightarrow>
           map_sum id fst (determine_tcpip_version net k) =
             Inr (if is_64bit k then ''netscan-vista-x64'' else ''netscan-vista-x86''))
    \<and> (NtMajorVersion k = 6 \<and> NtMinorVersion k = 1 \<longrightarrow>
           map_sum id fst (determine_tcpip_version net k) =
             Inr (if is_64bit k then ''netscan-win7-x64'' else ''netscan-win7-x86''))
    \<and> (NtMajorVersion k = 6 \<and> NtMinorVersion k = 2 \<longrightarrow>
           map_sum id fst (determine_tcpip_version net k) =
             Inr (if is_64bit k then ''netscan-win8-x64'' else ''netscan-win8-x86''))
    \<and> (NtMajorVersion k = 6 \<and> NtMinorVersion k = 3 \<longrightarrow>
           map_sum id fst (determine_tcpip_version net k) =
             Inr (if is_64bit k then ''netscan-win81-x64'' else ''netscan-win81-x86''))"
  using assms
  by (simp add: determine_major_10 determine_major_6 arch_of_def)

theorem version_decision_table_witness:
  "map_sum id fst (determine_tcpip_version example_network (example_profile True 6 1 7601)) =
     Inr ''netscan-win7-x64''
   \<and> map_sum id fst (determine_tcpip_version example_network (example_profile False 6 0 6002)) =
     Inr ''netscan-vista-x86''
   \<and> map_sum id fst (determine_tcpip_version example_network (example_profile True 6 2 9200)) =
     Inr ''netscan-win8-x64''
   \<and> map_sum id fst (determine_tcpip_version example_network (example_profile False 6 3 9600)) =
     Inr ''netscan-win81-x86''
   \<and> map_sum id fst (determine_tcpip_version example_network (example_profile False 10 0 10240)) =
     Inr ''netscan-win10-x86''
   \<and> map_sum id fst (determine_tcpip_version example_network (example_profile False 10 0 14393)) =
     Inr ''netscan-win10-14393-x86''
   \<and> map_sum id fst (determine_tcpip_version example_network (example_profile True 10 0 14393)) =
     Inr ''netscan-win10-x64''
   \<and> map_sum id fst (determine_tcpip_version example_network (example_profile True 10 0 15063)) =
     Inr ''netscan-win10-15063-x64''"
  using version_decision_table [of "example_profile True 6 1 7601" example_network]
    version_decision_table [of "example_profile False 6 0 6002" example_network]
    version_decision_table [of "example_profile True 6 2 9200" example_network]
    version_decision_table [of "example_profile False 6 3 9600" example_network]
    version_decision_table [of "example_profile False 10 0 10240" example_network]
    version_decision_table [of "example_profile False 10 0 14393" example_network]
    version_decision_table [of "example_profile True 10 0 14393" example_network]
    version_decision_table [of "example_profile True 10 0 15063" example_network]
  by (simp add: example_profile_def)

text \<open>
  Claim C2. The claim says that a major version other than 6 and 10 gives a fallback file
  name built from the major version. The fallback branch formats \<^verbatim>\<open>major_version\<close>,
  which is bound nowhere, so the call ends in a \<^verbatim>\<open>NameError\<close>: here for major version
  5, minor version 1, build 2600 on x86.
\<close>

theorem fallback_raises_name_error:
  "determine_tcpip_version example_network (example_profile False 5 1 2600) =
     Inl (NameError ''major_version'')"
  by (simp add: determine_major_other example_profile_def)

text \<open>
  Claim C9. When the extended class table is the general one with exactly one more entry,
  the call on an Intel layer returns the extended table exactly when the major version is
  10 and the architecture is x64.
\<close>

theorem extended_class_types_selection:
  assumes "layer_is_intel k"
    and "\<exists>t. t \<notin> class_types net \<and> win10_x64_class_types net = insert t (class_types net)"
  shows "(\<exists>filename. determine_tcpip_version net k = Inr (filename, win10_x64_class_types net))
           \<longleftrightarrow> NtMajorVersion k = 10 \<and> is_64bit k"
proof -
  from assms(2) have ne: "class_types net \<noteq> win10_x64_class_types net" by auto
  consider (ten) "NtMajorVersion k = 10" | (six) "NtMajorVersion k = 6"
    | (other) "NtMajorVersion k \<noteq> 10" "NtMajorVersion k \<noteq> 6" by blast
  then show ?thesis
  proof cases
    case ten
    then show ?thesis using assms(1) ne by (simp add: determine_major_10)
  next
    case six
    then show ?thesis using assms(1) ne by (simp add: determine_major_6)
  next
    case other
    then show ?thesis using assms(1) by (simp add: determine_major_other)
  qed
qed

theorem extended_class_types_selection_witness:
  "(\<exists>filename. determine_tcpip_version example_network (example_profile True 10 0 17763) =
      Inr (filename, win10_x64_class_types example_network))
   \<and> \<not> (\<exists>filename. determine_tcpip_version example_network (example_profile False 10 0 17763) =
      Inr (filename, win10_x64_class_types example_network))
   \<and> \<not> (\<exists>filename. determine_tcpip_version example_network (example_profile True 6 1 7601) =
      Inr (filename, win10_x64_class_types example_network))"
proof -
  have intel: "layer_is_intel (example_profile x64 major minor build)" for x64 major minor build
    by (simp add: example_profile_def)
  have ext: "\<exists>t. t \<notin> class_types example_network \<and>
      win10_x64_class_types example_network = insert t (class_types example_network)"
    by (rule exI [of _ "''_IN_ADDR''"]) (auto simp: example_network_def)
  show ?thesis
    using extended_class_types_selection [OF intel ext, of True 10 0 17763]
      extended_class_types_selection [OF intel ext, of False 10 0 17763]
      extended_class_types_selection [OF intel ext, of True 6 1 7601]
    by (simp add: example_profile_def)
qed

subsection \<open>Events and rows of one candidate\<close>

lemma yielded_map_Yield: "yielded (map (Yield lvl) rs) = rs"
  by (induction rs) simp_all

lemma logged_map_Yield: "logged (map (Yield lvl) rs) = []"
  by (induction rs) simp_all

lemma yielded_append: "yielded (es @ fs) = yielded es @ yielded fs"
  by (induction es rule: yielded.induct) simp_all

lemma isinstance_simps:
  "isinstance obj UDP_ENDPOINT \<longleftrightarrow> cls obj = UDP_ENDPOINT"
  "isinstance obj TCP_ENDPOINT \<longleftrightarrow> cls obj = TCP_ENDPOINT"
  "isinstance obj TCP_LISTENER \<longleftrightarrow> cls obj \<noteq> Other_class"
  by (cases "cls obj"; simp add: isinstance_def)+

lemma yielded_netw_obj_events:
  "yielded (netw_obj_events net show_corrupt_results obj) =
    (if \<not> flag_set show_corrupt_results \<and> \<not> is_valid obj then []
     else case cls obj of
       UDP_ENDPOINT \<Rightarrow> udp_endpoint_rows obj
     | TCP_ENDPOINT \<Rightarrow> [tcp_endpoint_row net obj]
     | TCP_LISTENER \<Rightarrow> tcp_listener_rows obj
     | Other_class \<Rightarrow> [])"
  by (cases "cls obj") (simp_all add: netw_obj_events_def isinstance_simps yielded_map_Yield)

lemma logged_netw_obj_events:
  "logged (netw_obj_events net show_corrupt_results obj) =
    Found_netw_obj (offset obj) (cls obj) #
    (if \<not> flag_set show_corrupt_results \<and> \<not> is_valid obj then []
     else case cls obj of
       UDP_ENDPOINT \<Rightarrow> [Found_UDP_ENDPOINT (offset obj)]
     | TCP_ENDPOINT \<Rightarrow> [Found_TCP_ENDPOINT (offset obj)]
     | TCP_LISTENER \<Rightarrow> [Found_TCP_LISTENER (offset obj)]
     | Other_class \<Rightarrow> [Unsure_of_type obj])"
  by (cases "cls obj") (simp_all add: netw_obj_events_def isinstance_simps logged_map_Yield)

lemma scan_events_append:
  "scan_events net s (xs @ ys) = scan_events net s xs @ scan_events net s ys"
  by (induction xs) simp_all

lemma udp_row_columns:
  "r \<in> set (udp_endpoint_rows obj) \<Longrightarrow>
   col_State r = PStr [] \<and> col_ForeignAddr r = PStr ''*'' \<and> col_ForeignPort r = 0
   \<and> col_PID r = or_unreadable (get_owner_pid obj)
   \<and> col_Owner r = or_unreadable (get_owner_procname obj)
   \<and> col_Created r = or_unreadable (get_create_time obj)"
  by (auto simp: udp_endpoint_rows_def)

lemma listener_row_columns:
  "r \<in> set (tcp_listener_rows obj) \<Longrightarrow>
   col_State r = PStr ''LISTENING'' \<and> col_ForeignPort r = 0
   \<and> col_PID r = or_unreadable (get_owner_pid obj)
   \<and> col_Owner r = or_unreadable (get_owner_procname obj)
   \<and> col_Created r = or_unreadable (get_create_time obj)"
  by (auto simp: tcp_listener_rows_def)

lemma endpoint_row_columns:
  "col_PID (tcp_endpoint_row net obj) = or_unreadable (get_owner_pid obj)
   \<and> col_Owner (tcp_endpoint_row net obj) = or_unreadable (get_owner_procname obj)
   \<and> col_Created (tcp_endpoint_row net obj) = or_unreadable (get_create_time obj)"
  by (simp add: tcp_endpoint_row_def Let_def)

lemmas example_defs =
  example_obj_def example_network_def example_profile_def example_context_def
  netw_obj_events_def isinstance_def flag_set_def udp_endpoint_rows_def tcp_endpoint_row_def
  tcp_listener_rows_def dual_stack_expansion_def or_unreadable_def Let_def

subsection \<open>Classification\<close>

text \<open>
  Claim C3. A candidate that passes the validity gate is tested against the UDP endpoint
  class first, then the TCP endpoint class, then the TCP listener class: the first test
  that holds decides the branch. A TCP endpoint is an instance of the listener class as
  well, and still it is never logged as a listener and yields nothing but its endpoint row.
  A candidate of none of the three classes is logged and yields no row; the loop goes on
  with the candidates after it, and once the set-up has succeeded the generator ends
  without an error whatever the candidates are.
\<close>

theorem classification_order:
  "(flag_set s \<or> is_valid obj \<longrightarrow>
      (isinstance obj UDP_ENDPOINT \<longrightarrow>
         netw_obj_events net s obj =
           Debug (Found_netw_obj (offset obj) (cls obj)) # Debug (Found_UDP_ENDPOINT (offset obj)) #
           map (Yield 0) (udp_endpoint_rows obj))
    \<and> (\<not> isinstance obj UDP_ENDPOINT \<and> isinstance obj TCP_ENDPOINT \<longrightarrow>
         netw_obj_events net s obj =
           [Debug (Found_netw_obj (offset obj) (cls obj)), Debug (Found_TCP_ENDPOINT (offset obj)),
            Yield 0 (tcp_endpoint_row net obj)])
    \<and> (\<not> isinstance obj UDP_ENDPOINT \<and> \<not> isinstance obj TCP_ENDPOINT \<and> isinstance obj TCP_LISTENER \<longrightarrow>
         netw_obj_events net s obj =
           Debug (Found_netw_obj (offset obj) (cls obj)) # Debug (Found_TCP_LISTENER (offset obj)) #
           map (Yield 0) (tcp_listener_rows obj))
    \<and> (\<not> isinstance obj UDP_ENDPOINT \<and> \<not> isinstance obj TCP_ENDPOINT \<and> \<not> isinstance obj TCP_LISTENER \<longrightarrow>
         netw_obj_events net s obj =
           [Debug (Found_netw_obj (offset obj) (cls obj)), Debug (Unsure_of_type obj)]))
   \<and> (cls obj = TCP_ENDPOINT \<longrightarrow>
         isinstance obj TCP_LISTENER
       \<and> Found_TCP_LISTENER (offset obj) \<notin> set (logged (netw_obj_events net s obj))
       \<and> set (yielded (netw_obj_events net s obj)) \<subseteq> {tcp_endpoint_row net obj})
   \<and> (\<not> isinstance obj UDP_ENDPOINT \<and> \<not> isinstance obj TCP_ENDPOINT \<and> \<not> isinstance obj TCP_LISTENER \<longrightarrow>
         yielded (netw_obj_events net s obj) = []
       \<and> scan_events net s (before @ obj # after) =
           scan_events net s before @ netw_obj_events net s obj @ scan_events net s after)
   \<and> (\<forall>filename ct constraints.
         determine_tcpip_version net k = Inr (filename, ct) \<and>
         create_netscan_constraints ctx (create_table filename ct) = Inr constraints \<longrightarrow>
         generator net k ctx create_table generate_pool_scan s =
           Inr (scan_events net s (generate_pool_scan constraints)))"
  by (cases "cls obj")
     (simp_all add: netw_obj_events_def isinstance_simps yielded_map_Yield logged_map_Yield
        scan_events_append generator_def create_netscan_symbol_table_def scan_def)

theorem classification_order_witness:
  "netw_obj_events example_network None (example_obj UDP_ENDPOINT True 4) =
     [Debug (Found_netw_obj 4096 UDP_ENDPOINT), Debug (Found_UDP_ENDPOINT 4096),
      Yield 0 \<lparr>col_Offset = 4096, col_Proto = ''UDPv4'', col_LocalAddr = PStr ''0.0.0.0'',
               col_LocalPort = 445, col_ForeignAddr = PStr ''*'', col_ForeignPort = 0,
               col_State = PStr [], col_PID = UnreadableValue, col_Owner = PStr ''svchost.exe'',
               col_Created = UnreadableValue\<rparr>,
      Yield 0 \<lparr>col_Offset = 4096, col_Proto = ''UDPv6'', col_LocalAddr = PStr ''::'',
               col_LocalPort = 445, col_ForeignAddr = PStr ''*'', col_ForeignPort = 0,
               col_State = PStr [], col_PID = UnreadableValue, col_Owner = PStr ''svchost.exe'',
               col_Created = UnreadableValue\<rparr>]
   \<and> netw_obj_events example_network None (example_obj TCP_ENDPOINT True 4) =
     [Debug (Found_netw_obj 4096 TCP_ENDPOINT), Debug (Found_TCP_ENDPOINT 4096),
      Yield 0 \<lparr>col_Offset = 4096, col_Proto = ''TCPv4'', col_LocalAddr = PStr ''10.0.0.5'',
               col_LocalPort = 49152, col_ForeignAddr = UnreadableValue, col_ForeignPort = 443,
               col_State = PStr ''ESTABLISHED'', col_PID = UnreadableValue,
               col_Owner = PStr ''svchost.exe'', col_Created = UnreadableValue\<rparr>]
   \<and> isinstance (example_obj TCP_ENDPOINT True 4) TCP_LISTENER
   \<and> logged (netw_obj_events example_network None (example_obj TCP_LISTENER True 4)) =
     [Found_netw_obj 4096 TCP_LISTENER, Found_TCP_LISTENER 4096]
   \<and> netw_obj_events example_network None (example_obj Other_class True 4) =
     [Debug (Found_netw_obj 4096 Other_class), Debug (Unsure_of_type (example_obj Other_class True 4))]
   \<and> generator example_network (example_profile True 6 1 7601) example_context
        (\<lambda>filename ct. ''netscan1'')
        (\<lambda>constraints. [example_obj Other_class True 4, example_obj TCP_ENDPOINT True 4]) None =
      Inr [Debug (Found_netw_obj 4096 Other_class),
           Debug (Unsure_of_type (example_obj Other_class True 4)),
           Debug (Found_netw_obj 4096 TCP_ENDPOINT), Debug (Found_TCP_ENDPOINT 4096),
           Yield 0 (tcp_endpoint_row example_network (example_obj TCP_ENDPOINT True 4))]"
proof -
  have v: "determine_tcpip_version example_network (example_profile True 6 1 7601) =
      Inr (''netscan-win7-x64'', class_types example_network)"
    by (simp add: determine_major_6 example_profile_def arch_of_def)
  have c: "\<exists>constraints. create_netscan_constraints example_context ''netscan1'' = Inr constraints"
    by (simp add: create_netscan_constraints_def get_type_size_def example_context_def)
  then obtain constraints where
    c': "create_netscan_constraints example_context ''netscan1'' = Inr constraints" ..
  show ?thesis
    using classification_order [where s = None and obj = "example_obj UDP_ENDPOINT True 4"
        and net = example_network]
      classification_order [where s = None and obj = "example_obj TCP_LISTENER True 4"
        and net = example_network]
      classification_order [where s = None and obj = "example_obj TCP_ENDPOINT True 4"
        and net = example_network and k = "example_profile True 6 1 7601"
        and ctx = example_context and create_table = "\<lambda>filename ct. ''netscan1''"
        and generate_pool_scan =
          "\<lambda>constraints. [example_obj Other_class True 4, example_obj TCP_ENDPOINT True 4]"]
      classification_order [where s = None and obj = "example_obj Other_class True 4"
        and net = example_network]
      v c'
    by (simp add: example_defs)
qed

subsection \<open>The validity gate\<close>

text \<open>
  Claim C4. The flag is off by default. With the flag off, a candidate whose validity
  check fails yields no row and the rows of the candidates before and after it are
  unchanged. With the flag on, the rows of a candidate are those of its class, whatever
  its validity check would say.
\<close>

theorem validity_gate:
  "\<not> flag_set None \<and> \<not> flag_set (Some CORRUPT_DEFAULT)
   \<and> (\<not> flag_set s \<and> \<not> is_valid obj \<longrightarrow>
         yielded (netw_obj_events net s obj) = []
       \<and> yielded (scan_events net s (before @ obj # after)) =
           yielded (scan_events net s before) @ yielded (scan_events net s after))
   \<and> (flag_set s \<longrightarrow>
         yielded (netw_obj_events net s obj) =
           (case cls obj of
              UDP_ENDPOINT \<Rightarrow> udp_endpoint_rows obj
            | TCP_ENDPOINT \<Rightarrow> [tcp_endpoint_row net obj]
            | TCP_LISTENER \<Rightarrow> tcp_listener_rows obj
            | Other_class \<Rightarrow> [])
       \<and> yielded (netw_obj_events net s (obj\<lparr>is_valid := v\<rparr>)) =
           yielded (netw_obj_events net s obj))"
proof -
  have rows: "udp_endpoint_rows (obj\<lparr>is_valid := v\<rparr>) = udp_endpoint_rows obj"
    "tcp_endpoint_row net (obj\<lparr>is_valid := v\<rparr>) = tcp_endpoint_row net obj"
    "tcp_listener_rows (obj\<lparr>is_valid := v\<rparr>) = tcp_listener_rows obj"
    by (simp_all add: udp_endpoint_rows_def tcp_endpoint_row_def tcp_listener_rows_def)
  show ?thesis
    by (simp add: flag_set_def CORRUPT_DEFAULT_def yielded_netw_obj_events scan_events_append
        yielded_append rows split: obj_class.splits)
qed

theorem validity_gate_witness:
  "yielded (netw_obj_events example_network None (example_obj TCP_ENDPOINT False 255)) = []
   \<and> yielded (scan_events example_network None
        [example_obj TCP_ENDPOINT True 4, example_obj TCP_ENDPOINT False 255,
         example_obj TCP_ENDPOINT True 0]) =
      [tcp_endpoint_row example_network (example_obj TCP_ENDPOINT True 4),
       tcp_endpoint_row example_network (example_obj TCP_ENDPOINT True 0)]
   \<and> yielded (netw_obj_events example_network (Some True) (example_obj TCP_ENDPOINT False 255)) =
      [\<lparr>col_Offset = 4096, col_Proto = ''TCPv4'', col_LocalAddr = PStr ''10.0.0.5'',
        col_LocalPort = 49152, col_ForeignAddr = UnreadableValue, col_ForeignPort = 443,
        col_State = UnreadableValue, col_PID = UnreadableValue,
        col_Owner = PStr ''svchost.exe'', col_Created = UnreadableValue\<rparr>]"
  using validity_gate [where s = None and obj = "example_obj TCP_ENDPOINT False 255"
      and net = example_network and before = "[example_obj TCP_ENDPOINT True 4]"
      and after = "[example_obj TCP_ENDPOINT True 0]"]
    validity_gate [where s = "Some True" and obj = "example_obj TCP_ENDPOINT False 255"
      and net = example_network]
  by (simp add: example_defs)

subsection \<open>Extraction\<close>

text \<open>
  Claim C5. Every row yielded for a candidate classified as a UDP endpoint has the empty
  string as state, \<^verbatim>\<open>*\<close> as remote address and 0 as remote port.
\<close>

theorem udp_rows_blank_state_wildcard_remote:
  assumes "isinstance obj UDP_ENDPOINT"
    and "r \<in> set (yielded (netw_obj_events net s obj))"
  shows "col_State r = PStr [] \<and> col_ForeignAddr r = PStr ''*'' \<and> col_ForeignPort r = 0"
  using assms udp_row_columns [of r obj]
  by (simp add: yielded_netw_obj_events isinstance_simps split: if_splits)

theorem udp_rows_blank_state_wildcard_remote_witness:
  "isinstance (example_obj UDP_ENDPOINT True 4) UDP_ENDPOINT
   \<and> map col_Proto (yielded (netw_obj_events example_network None (example_obj UDP_ENDPOINT True 4))) =
       [''UDPv4'', ''UDPv6'']
   \<and> col_State (hd (yielded (netw_obj_events example_network None (example_obj UDP_ENDPOINT True 4)))) =
       PStr []
   \<and> col_ForeignAddr (hd (yielded (netw_obj_events example_network None (example_obj UDP_ENDPOINT True 4)))) =
       PStr ''*''
   \<and> col_ForeignPort (hd (yielded (netw_obj_events example_network None (example_obj UDP_ENDPOINT True 4)))) =
       0"
proof -
  let ?obj = "example_obj UDP_ENDPOINT True 4"
  let ?rows = "yielded (netw_obj_events example_network None ?obj)"
  have inst: "isinstance ?obj UDP_ENDPOINT" by (simp add: example_defs)
  have protos: "map col_Proto ?rows = [''UDPv4'', ''UDPv6'']" by (simp add: example_defs)
  then have "?rows \<noteq> []" by auto
  then have mem: "hd ?rows \<in> set ?rows" by (rule hd_in_set)
  show ?thesis
    using udp_rows_blank_state_wildcard_remote [OF inst mem] inst protos by simp
qed

text \<open>
  Claim C6. A candidate classified as a TCP endpoint that passes the gate yields exactly one
  row. Its protocol is TCPv4 for the address family \<^verbatim>\<open>AF_INET\<close>, TCPv6 for
  \<^verbatim>\<open>AF_INET6\<close> and TCPv? for any other family; its state is the unreadable marker
  when the state code is not a key of the state table, and the label of the table otherwise.
\<close>

theorem tcp_endpoint_proto_and_state:
  assumes "isinstance obj TCP_ENDPOINT"
    and "AF_INET net \<noteq> AF_INET6 net"
  shows "(flag_set s \<or> is_valid obj \<longrightarrow> length (yielded (netw_obj_events net s obj)) = 1)
   \<and> (\<forall>r \<in> set (yielded (netw_obj_events net s obj)).
        (get_address_family obj = AF_INET net \<longrightarrow> col_Proto r = ''TCPv4'')
      \<and> (get_address_family obj = AF_INET6 net \<longrightarrow> col_Proto r = ''TCPv6'')
      \<and> (get_address_family obj \<noteq> AF_INET net \<and> get_address_family obj \<noteq> AF_INET6 net \<longrightarrow>
           col_Proto r = ''TCPv?'')
      \<and> (State obj \<notin> dom (TCP_STATE_ENUM net) \<longrightarrow> col_State r = UnreadableValue)
      \<and> (\<forall>label. TCP_STATE_ENUM net (State obj) = Some label \<longrightarrow> col_State r = PStr label))"
  using assms
  by (auto simp: yielded_netw_obj_events isinstance_simps tcp_endpoint_row_def Let_def
      split: if_splits option.splits)

theorem tcp_endpoint_proto_and_state_witness:
  "map col_Proto (yielded (netw_obj_events example_network None (example_obj TCP_ENDPOINT True 255))) =
     [''TCPv4'']
   \<and> map col_State (yielded (netw_obj_events example_network None (example_obj TCP_ENDPOINT True 255))) =
     [UnreadableValue]
   \<and> map col_State (yielded (netw_obj_events example_network None (example_obj TCP_ENDPOINT True 4))) =
     [PStr ''ESTABLISHED'']
   \<and> map col_Proto (yielded (netw_obj_events example_network None
        ((example_obj TCP_ENDPOINT True 4)\<lparr>get_address_family := 23\<rparr>))) = [''TCPv6'']
   \<and> map col_Proto (yielded (netw_obj_events example_network None
        ((example_obj TCP_ENDPOINT True 4)\<lparr>get_address_family := 99\<rparr>))) = [''TCPv?'']"
proof -
  have inst: "isinstance ((example_obj TCP_ENDPOINT True st)\<lparr>get_address_family := af\<rparr>) TCP_ENDPOINT"
    for st af by (simp add: example_defs)
  have af: "AF_INET example_network \<noteq> AF_INET6 example_network"
    by (simp add: example_defs)
  show ?thesis
    using tcp_endpoint_proto_and_state [OF inst [of 255 2] af, where s = None]
      tcp_endpoint_proto_and_state [OF inst [of 4 2] af, where s = None]
      tcp_endpoint_proto_and_state [OF inst [of 4 23] af, where s = None]
      tcp_endpoint_proto_and_state [OF inst [of 4 99] af, where s = None]
    by (simp add: example_defs)
qed

text \<open>
  Claim C7. Every row yielded for a candidate classified as a TCP listener has the state
  LISTENING and the remote port 0. A dual-stack candidate (a UDP endpoint or a TCP listener
  whose sockets are the dual-stack expansion) that reaches the classification yields exactly
  two rows, one for v4 and one for v6, with the same offset, local port, remote port, state,
  owner pid, owner name and creation time.
\<close>

theorem listener_rows_and_dual_stack:
  "(\<not> isinstance obj UDP_ENDPOINT \<and> \<not> isinstance obj TCP_ENDPOINT \<and> isinstance obj TCP_LISTENER \<longrightarrow>
      (\<forall>r \<in> set (yielded (netw_obj_events net s obj)).
         col_State r = PStr ''LISTENING'' \<and> col_ForeignPort r = 0))
   \<and> ((cls obj = UDP_ENDPOINT \<or> cls obj = TCP_LISTENER) \<and> (flag_set s \<or> is_valid obj)
       \<and> dual_stack_sockets obj = dual_stack_expansion laddr4 any4 laddr6 any6 \<longrightarrow>
      (\<exists>r1 r2. yielded (netw_obj_events net s obj) = [r1, r2]
         \<and> col_Proto r1 = (if cls obj = UDP_ENDPOINT then ''UDPv4'' else ''TCPv4'')
         \<and> col_Proto r2 = (if cls obj = UDP_ENDPOINT then ''UDPv6'' else ''TCPv6'')
         \<and> col_LocalAddr r1 = laddr4 \<and> col_LocalAddr r2 = laddr6
         \<and> col_Offset r1 = col_Offset r2
         \<and> col_LocalPort r1 = col_LocalPort r2
         \<and> col_ForeignPort r1 = col_ForeignPort r2
         \<and> col_State r1 = col_State r2
         \<and> col_PID r1 = col_PID r2
         \<and> col_Owner r1 = col_Owner r2
         \<and> col_Created r1 = col_Created r2))"
  using listener_row_columns [of _ obj]
  by (auto simp: yielded_netw_obj_events isinstance_simps dual_stack_expansion_def
      udp_endpoint_rows_def tcp_listener_rows_def split: obj_class.splits)

theorem listener_rows_and_dual_stack_witness:
  "yielded (netw_obj_events example_network None (example_obj TCP_LISTENER True 4)) =
     [\<lparr>col_Offset = 4096, col_Proto = ''TCPv4'', col_LocalAddr = PStr ''0.0.0.0'',
       col_LocalPort = 445, col_ForeignAddr = PStr ''0.0.0.0'', col_ForeignPort = 0,
       col_State = PStr ''LISTENING'', col_PID = UnreadableValue,
       col_Owner = PStr ''svchost.exe'', col_Created = UnreadableValue\<rparr>,
      \<lparr>col_Offset = 4096, col_Proto = ''TCPv6'', col_LocalAddr = PStr ''::'',
       col_LocalPort = 445, col_ForeignAddr = PStr ''::'', col_ForeignPort = 0,
       col_State = PStr ''LISTENING'', col_PID = UnreadableValue,
       col_Owner = PStr ''svchost.exe'', col_Created = UnreadableValue\<rparr>]
   \<and> map col_Proto (yielded (netw_obj_events example_network None (example_obj UDP_ENDPOINT True 4))) =
     [''UDPv4'', ''UDPv6'']"
  using listener_rows_and_dual_stack [where obj = "example_obj TCP_LISTENER True 4"
      and net = example_network and s = None and ?laddr4.0 = "PStr ''0.0.0.0''"
      and ?any4.0 = "PStr ''0.0.0.0''" and ?laddr6.0 = "PStr ''::''" and ?any6.0 = "PStr ''::''"]
    listener_rows_and_dual_stack [where obj = "example_obj UDP_ENDPOINT True 4"
      and net = example_network and s = None and ?laddr4.0 = "PStr ''0.0.0.0''"
      and ?any4.0 = "PStr ''0.0.0.0''" and ?laddr6.0 = "PStr ''::''" and ?any6.0 = "PStr ''::''"]
  by (simp add: example_defs)

subsection \<open>The constraint builder\<close>

text \<open>
  Claim C8. For a symbol table that holds the three structure types, the constraint builder
  returns exactly three constraints, with the tags TcpL, TcpE and UdpA in this order, each
  with the size of its structure as lower bound and no upper bound, and each with the page
  type made of the non-paged and the free flag.
\<close>

theorem constraints_three:
  assumes "symbol_space ctx (symbol_table @ BANG ctx @ ''_TCP_LISTENER'') = Some tcpl_size"
    and "symbol_space ctx (symbol_table @ BANG ctx @ ''_TCP_ENDPOINT'') = Some tcpe_size"
    and "symbol_space ctx (symbol_table @ BANG ctx @ ''_UDP_ENDPOINT'') = Some udpa_size"
  shows "\<exists>constraints. create_netscan_constraints ctx symbol_table = Inr constraints
     \<and> length constraints = 3
     \<and> map tag constraints = [''TcpL'', ''TcpE'', ''UdpA'']
     \<and> map type_name constraints =
         [symbol_table @ BANG ctx @ ''_TCP_LISTENER'', symbol_table @ BANG ctx @ ''_TCP_ENDPOINT'',
          symbol_table @ BANG ctx @ ''_UDP_ENDPOINT'']
     \<and> map size_bounds constraints = [(tcpl_size, None), (tcpe_size, None), (udpa_size, None)]
     \<and> (\<forall>c \<in> set constraints. page_type c = {NONPAGED, FREE})"
  using assms by (auto simp: create_netscan_constraints_def get_type_size_def)

theorem constraints_three_witness:
  "create_netscan_constraints example_context ''netscan1'' =
     Inr [\<lparr>tag = ''TcpL'', type_name = ''netscan1!_TCP_LISTENER'', size_bounds = (120, None),
           page_type = {NONPAGED, FREE}\<rparr>,
          \<lparr>tag = ''TcpE'', type_name = ''netscan1!_TCP_ENDPOINT'', size_bounds = (624, None),
           page_type = {NONPAGED, FREE}\<rparr>,
          \<lparr>tag = ''UdpA'', type_name = ''netscan1!_UDP_ENDPOINT'', size_bounds = (168, None),
           page_type = {NONPAGED, FREE}\<rparr>]"
proof -
  have l: "symbol_space example_context (''netscan1'' @ BANG example_context @ ''_TCP_LISTENER'') = Some 120"
    and e: "symbol_space example_context (''netscan1'' @ BANG example_context @ ''_TCP_ENDPOINT'') = Some 624"
    and u: "symbol_space example_context (''netscan1'' @ BANG example_context @ ''_UDP_ENDPOINT'') = Some 168"
    by (simp_all add: example_context_def)
  show ?thesis
    using constraints_three [OF l e u]
    by (auto simp: example_context_def create_netscan_constraints_def get_type_size_def)
qed

subsection \<open>Owner and creation time\<close>

text \<open>
  Claim C10. In every yielded row, of any kind, the owner pid, the owner name and the
  creation time are the unreadable marker whenever the accessor returns a false value
  (\<^verbatim>\<open>None\<close>, 0, the empty string). So the rows of a candidate with pid 0, with an empty
  owner name or with no creation time are the rows it has when the accessor returns the
  unreadable marker itself.
\<close>

theorem falsy_owner_fields_unreadable:
  "(\<forall>r \<in> set (yielded (netw_obj_events net s obj)).
      (\<not> truthy (get_owner_pid obj) \<longrightarrow> col_PID r = UnreadableValue)
    \<and> (\<not> truthy (get_owner_procname obj) \<longrightarrow> col_Owner r = UnreadableValue)
    \<and> (\<not> truthy (get_create_time obj) \<longrightarrow> col_Created r = UnreadableValue))
   \<and> \<not> truthy PNone \<and> \<not> truthy (PInt 0) \<and> \<not> truthy (PStr [])
   \<and> yielded (netw_obj_events net s (obj\<lparr>get_owner_pid := PInt 0\<rparr>)) =
       yielded (netw_obj_events net s (obj\<lparr>get_owner_pid := UnreadableValue\<rparr>))
   \<and> yielded (netw_obj_events net s (obj\<lparr>get_owner_procname := PStr []\<rparr>)) =
       yielded (netw_obj_events net s (obj\<lparr>get_owner_procname := UnreadableValue\<rparr>))
   \<and> yielded (netw_obj_events net s (obj\<lparr>get_create_time := PNone\<rparr>)) =
       yielded (netw_obj_events net s (obj\<lparr>get_create_time := UnreadableValue\<rparr>))"
proof -
  have cols: "\<forall>r \<in> set (yielded (netw_obj_events net s obj)).
      col_PID r = or_unreadable (get_owner_pid obj)
    \<and> col_Owner r = or_unreadable (get_owner_procname obj)
    \<and> col_Created r = or_unreadable (get_create_time obj)"
    using udp_row_columns [of _ obj] listener_row_columns [of _ obj] endpoint_row_columns [of net obj]
    by (auto simp: yielded_netw_obj_events split: obj_class.splits if_splits)
  have same: "yielded (netw_obj_events net s (obj\<lparr>get_owner_pid := PInt 0\<rparr>)) =
       yielded (netw_obj_events net s (obj\<lparr>get_owner_pid := UnreadableValue\<rparr>))"
     "yielded (netw_obj_events net s (obj\<lparr>get_owner_procname := PStr []\<rparr>)) =
       yielded (netw_obj_events net s (obj\<lparr>get_owner_procname := UnreadableValue\<rparr>))"
     "yielded (netw_obj_events net s (obj\<lparr>get_create_time := PNone\<rparr>)) =
       yielded (netw_obj_events net s (obj\<lparr>get_create_time := UnreadableValue\<rparr>))"
    by (simp_all add: yielded_netw_obj_events udp_endpoint_rows_def tcp_endpoint_row_def
        tcp_listener_rows_def or_unreadable_def split: obj_class.splits)
  show ?thesis using cols same by (simp add: or_unreadable_def)
qed

theorem falsy_owner_fields_unreadable_witness:
  "map col_PID (yielded (netw_obj_events example_network None (example_obj TCP_ENDPOINT True 4))) =
     [UnreadableValue]
   \<and> map col_Created (yielded (netw_obj_events example_network None (example_obj TCP_LISTENER True 4))) =
     [UnreadableValue, UnreadableValue]
   \<and> map col_Owner (yielded (netw_obj_events example_network None
        ((example_obj UDP_ENDPOINT True 4)\<lparr>get_owner_procname := PStr []\<rparr>))) =
     [UnreadableValue, UnreadableValue]"
  using falsy_owner_fields_unreadable [where net = example_network and s = None
      and obj = "example_obj TCP_ENDPOINT True 4"]
    falsy_owner_fields_unreadable [where net = example_network and s = None
      and obj = "example_obj TCP_LISTENER True 4"]
    falsy_owner_fields_unreadable [where net = example_network and s = None
      and obj = "(example_obj UDP_ENDPOINT True 4)\<lparr>get_owner_procname := PStr []\<rparr>"]
  by (simp add: example_defs)

end
